theory Spec2Isabelle
  imports Complex_Main "HOL-Library.Word" "HOL-Library.AList" "HOL-Library.Multiset"
begin

unbundle bit_operations_syntax

section \<open>Core types (core/types.ts)\<close>

text \<open>
  \<^verbatim>\<open>NumericCoeff\<close> is a JavaScript number. It is modelled by a real number with exact
  arithmetic: rounding, overflow, NaN, the infinities and the negative zero of IEEE doubles
  are not part of the model. \<^verbatim>\<open>SymbolId\<close> is a counter value, hashes are unsigned 32-bit.
\<close>

type_synonym NumericCoeff = real
type_synonym SymbolId = nat
type_synonym hash32 = "32 word"

text \<open>The type tags are the strings of \<^verbatim>\<open>ExpressionType\<close>; the suffix avoids HOL's names.\<close>

datatype ExpressionType =
  NumberT | SymbolT | AddT | MulT | PowT | ZeroT | OneT | NegativeOneT

fun type_name :: "ExpressionType \<Rightarrow> string" where
  "type_name NumberT = ''Number''"
| "type_name SymbolT = ''Symbol''"
| "type_name AddT = ''Add''"
| "type_name MulT = ''Mul''"
| "type_name PowT = ''Pow''"
| "type_name ZeroT = ''Zero''"
| "type_name OneT = ''One''"
| "type_name NegativeOneT = ''NegativeOne''"

fun TYPE_ORDER :: "ExpressionType \<Rightarrow> int" where
  "TYPE_ORDER ZeroT = 0"
| "TYPE_ORDER OneT = 1"
| "TYPE_ORDER NegativeOneT = 2"
| "TYPE_ORDER NumberT = 3"
| "TYPE_ORDER SymbolT = 4"
| "TYPE_ORDER PowT = 5"
| "TYPE_ORDER MulT = 6"
| "TYPE_ORDER AddT = 7"

subsection \<open>Hashing\<close>

text \<open>
  One round of FNV-1a: \<^verbatim>\<open>hash ^= c; hash = Math.imul(hash, 16777619)\<close>. The final
  \<^verbatim>\<open>hash >>> 0\<close> reads the 32 bits as unsigned, which a word already is.
\<close>

definition fnv_round :: "hash32 \<Rightarrow> hash32 \<Rightarrow> hash32" where
  "fnv_round h c = (h XOR c) * 16777619"

definition fastHash :: "string \<Rightarrow> hash32" where
  "fastHash data = foldl (\<lambda>h c. fnv_round h (of_nat (of_char c))) 2166136261 data"

definition combineHashes :: "hash32 list \<Rightarrow> hash32" where
  "combineHashes hashes = foldl fnv_round 2166136261 hashes"

subsection \<open>Printing a number\<close>

text \<open>
  The template string \<^verbatim>\<open>`${type}:${value}`\<close> prints the value as JavaScript does. An integer
  prints as its decimal digits with a leading minus sign (exact below \<open>10\<^sup>2\<^sup>1\<close>). For a value
  with a fractional part the model prints the integer part, a point and the decimal
  expansion of the fraction, cut after 17 digits; JavaScript prints the shortest digits
  that read back as the same double.
\<close>

definition digit_char :: "nat \<Rightarrow> char" where
  "digit_char d = char_of (48 + d)"

function nat_toString :: "nat \<Rightarrow> string" where
  "nat_toString n =
     (if n < 10 then [digit_char n] else nat_toString (n div 10) @ [digit_char (n mod 10)])"
  by pat_completeness auto
termination
  by (relation "measure id") auto

fun frac_toString :: "nat \<Rightarrow> real \<Rightarrow> string" where
  "frac_toString 0 x = []"
| "frac_toString (Suc k) x =
     (if x = 0 then []
      else digit_char (nat \<lfloor>10 * x\<rfloor>) # frac_toString k (10 * x - of_int \<lfloor>10 * x\<rfloor>))"

definition Number_toString :: "NumericCoeff \<Rightarrow> string" where
  "Number_toString v =
     (if v < 0 then ''-'' else '''') @ nat_toString (nat \<lfloor>\<bar>v\<bar>\<rfloor>) @
     (if of_int \<lfloor>v\<rfloor> = v then '''' else ''.'' @ frac_toString 17 (\<bar>v\<bar> - of_int \<lfloor>\<bar>v\<bar>\<rfloor>))"

subsection \<open>Math.pow\<close>

text \<open>
  \<^verbatim>\<open>Math.pow\<close> on the reals: an integer exponent is a repeated product or quotient, any
  other exponent is the real power. JavaScript returns an infinity for a zero base with a
  negative exponent and NaN for a negative base with a fractional exponent; those two
  results are outside the model.
\<close>

definition Math_pow :: "NumericCoeff \<Rightarrow> NumericCoeff \<Rightarrow> NumericCoeff" where
  "Math_pow b e = (if of_int \<lfloor>e\<rfloor> = e then b powi \<lfloor>e\<rfloor> else b powr e)"

subsection \<open>The symbol registry\<close>

record SymbolRegistry =
  nameToId :: "string \<rightharpoonup> SymbolId"
  idToName :: "SymbolId \<rightharpoonup> string"
  nextId :: nat

definition SymbolRegistry_init :: SymbolRegistry where
  "SymbolRegistry_init = \<lparr>nameToId = Map.empty, idToName = Map.empty, nextId = 1\<rparr>"

definition getId :: "SymbolRegistry \<Rightarrow> string \<Rightarrow> SymbolId \<times> SymbolRegistry" where
  "getId r name =
     (case nameToId r name of
        Some i \<Rightarrow> (i, r)
      | None \<Rightarrow>
          (nextId r,
           r\<lparr>nameToId := (nameToId r)(name \<mapsto> nextId r),
             idToName := (idToName r)(nextId r \<mapsto> name),
             nextId := nextId r + 1\<rparr>))"

definition clear :: "SymbolRegistry \<Rightarrow> SymbolRegistry" where
  "clear r = \<lparr>nameToId = Map.empty, idToName = Map.empty, nextId = 1\<rparr>"

section \<open>Expressions (expressions/core.ts)\<close>

text \<open>
  One constructor per class. The fields \<^verbatim>\<open>type\<close>, \<^verbatim>\<open>hash\<close> and \<^verbatim>\<open>args\<close> of
  \<^verbatim>\<open>BaseExpression\<close> are set once by the class constructors from the payload and the
  operands, so they are functions of the node: \<open>etype\<close>, \<open>hash\<close>, \<open>args\<close>.
\<close>

datatype Expression =
    SymNumber NumericCoeff
  | SymSymbol string SymbolId
  | AddNode "Expression list"
  | MulNode "Expression list"
  | PowNode Expression Expression

text \<open>The type tag that the constructor of \<^verbatim>\<open>SymNumber\<close> computes from the value.\<close>

definition SymNumber_type :: "NumericCoeff \<Rightarrow> ExpressionType" where
  "SymNumber_type v =
     (if v = 0 then ZeroT else if v = 1 then OneT else if v = - 1 then NegativeOneT else NumberT)"

fun etype :: "Expression \<Rightarrow> ExpressionType" where
  "etype (SymNumber v) = SymNumber_type v"
| "etype (SymSymbol n i) = SymbolT"
| "etype (AddNode xs) = AddT"
| "etype (MulNode xs) = MulT"
| "etype (PowNode b e) = PowT"

fun args :: "Expression \<Rightarrow> Expression list" where
  "args (AddNode xs) = xs"
| "args (MulNode xs) = xs"
| "args (PowNode b e) = [b, e]"
| "args (SymNumber v) = []"
| "args (SymSymbol n i) = []"

text \<open>\<^verbatim>\<open>BaseExpression.computeHash\<close>, on the type tag and the hashes of the operands.\<close>

definition computeHash :: "ExpressionType \<Rightarrow> hash32 list \<Rightarrow> hash32" where
  "computeHash t hs =
     (if hs = [] then fastHash (type_name t) else combineHashes (fastHash (type_name t) # hs))"

fun hash :: "Expression \<Rightarrow> hash32" where
  "hash (SymNumber v) = fastHash (type_name (SymNumber_type v) @ '':'' @ Number_toString v)"
| "hash (SymSymbol n i) = fastHash (''Symbol:'' @ n)"
| "hash (AddNode xs) = computeHash AddT (map hash xs)"
| "hash (MulNode xs) = computeHash MulT (map hash xs)"
| "hash (PowNode b e) = computeHash PowT [hash b, hash e]"

text \<open>\<^verbatim>\<open>new SymSymbol(name)\<close> asks the registry for the id of the name.\<close>

definition new_SymSymbol :: "SymbolRegistry \<Rightarrow> string \<Rightarrow> Expression \<times> SymbolRegistry" where
  "new_SymSymbol r name = (case getId r name of (i, r') \<Rightarrow> (SymSymbol name i, r'))"

definition ZERO :: Expression where "ZERO = SymNumber 0"
definition ONE :: Expression where "ONE = SymNumber 1"
definition NEGATIVE_ONE :: Expression where "NEGATIVE_ONE = SymNumber (- 1)"

text \<open>The field \<^verbatim>\<open>value\<close>, which only a \<^verbatim>\<open>SymNumber\<close> has.\<close>

fun value_of :: "Expression \<Rightarrow> NumericCoeff" where
  "value_of (SymNumber v) = v"


definition isNumeric :: "Expression \<Rightarrow> bool" where
  "isNumeric expr \<longleftrightarrow>
     etype expr = NumberT \<or> etype expr = ZeroT \<or> etype expr = OneT \<or> etype expr = NegativeOneT"

subsection \<open>compareTo\<close>

text \<open>
  \<^verbatim>\<open>String.prototype.localeCompare\<close> is the platform's collation. It is modelled by the
  lexicographic order of the character codes, with results -1, 0 and 1.
\<close>

fun localeCompare :: "string \<Rightarrow> string \<Rightarrow> real" where
  "localeCompare [] [] = 0"
| "localeCompare [] (d # ds) = - 1"
| "localeCompare (c # cs) [] = 1"
| "localeCompare (c # cs) (d # ds) =
     (if (of_char c :: nat) < of_char d then - 1
      else if (of_char d :: nat) < of_char c then 1
      else localeCompare cs ds)"

text \<open>
  \<^verbatim>\<open>compareTo\<close> compares the type orders first and calls \<^verbatim>\<open>compareToSameType\<close> of the
  receiver's class when they agree. Two nodes of different classes never have the same
  type, which is the last equation. \<open>compareArgs\<close> is the loop of Add and Mul over the
  common prefix of the two operand lists, ending with the difference of the lengths.
\<close>

fun compareTo :: "Expression \<Rightarrow> Expression \<Rightarrow> real"
  and compareArgs :: "Expression list \<Rightarrow> Expression list \<Rightarrow> real" where
  "compareTo (SymNumber v) (SymNumber w) =
     (if TYPE_ORDER (SymNumber_type v) - TYPE_ORDER (SymNumber_type w) \<noteq> 0
      then of_int (TYPE_ORDER (SymNumber_type v) - TYPE_ORDER (SymNumber_type w))
      else v - w)"
| "compareTo (SymSymbol n i) (SymSymbol m j) = localeCompare n m"
| "compareTo (AddNode xs) (AddNode ys) = compareArgs xs ys"
| "compareTo (MulNode xs) (MulNode ys) = compareArgs xs ys"
| "compareTo (PowNode b e) (PowNode c f) =
     (if compareTo b c \<noteq> 0 then compareTo b c else compareTo e f)"
| "compareTo a b = of_int (TYPE_ORDER (etype a) - TYPE_ORDER (etype b))"
| "compareArgs (x # xs) (y # ys) =
     (if compareTo x y \<noteq> 0 then compareTo x y else compareArgs xs ys)"
| "compareArgs xs ys = real (length xs) - real (length ys)"

subsection \<open>equals\<close>

text \<open>
  \<^verbatim>\<open>equals\<close> is the conjunction of the hash test, the type test and \<^verbatim>\<open>deepEquals\<close> of the
  receiver's class. \<open>deepEquals\<close> on two nodes of different classes is never reached,
  since their types differ.
\<close>

fun deepEquals :: "Expression \<Rightarrow> Expression \<Rightarrow> bool"
  and deepEqualsArgs :: "Expression list \<Rightarrow> Expression list \<Rightarrow> bool" where
  "deepEquals (SymNumber v) (SymNumber w) \<longleftrightarrow> v = w"
| "deepEquals (SymSymbol n i) (SymSymbol m j) \<longleftrightarrow> i = j"
| "deepEquals (AddNode xs) (AddNode ys) \<longleftrightarrow>
     (if length xs \<noteq> length ys then False else deepEqualsArgs xs ys)"
| "deepEquals (MulNode xs) (MulNode ys) \<longleftrightarrow>
     (if length xs \<noteq> length ys then False else deepEqualsArgs xs ys)"
| "deepEquals (PowNode b e) (PowNode c f) \<longleftrightarrow>
     (hash b = hash c \<and> etype b = etype c \<and> deepEquals b c) \<and>
     (hash e = hash f \<and> etype e = etype f \<and> deepEquals e f)"
| "deepEquals a b \<longleftrightarrow> False"
| "deepEqualsArgs (x # xs) (y # ys) \<longleftrightarrow>
     (if \<not> (hash x = hash y \<and> etype x = etype y \<and> deepEquals x y) then False
      else deepEqualsArgs xs ys)"
| "deepEqualsArgs xs ys \<longleftrightarrow> True"

definition equals :: "Expression \<Rightarrow> Expression \<Rightarrow> bool" where
  "equals a b \<longleftrightarrow> hash a = hash b \<and> etype a = etype b \<and> deepEquals a b"

subsection \<open>Pow.create\<close>

definition Pow_create :: "Expression \<Rightarrow> Expression \<Rightarrow> Expression" where
  "Pow_create base exponent =
     (if etype exponent = ZeroT then ONE
      else if etype exponent = OneT then base
      else if etype base = ZeroT then ZERO
      else if etype base = OneT then ONE
      else if isNumeric base \<and> isNumeric exponent
      then SymNumber (Math_pow (value_of base) (value_of exponent))
      else PowNode base exponent)"

subsection \<open>Collections of the flattening algorithms\<close>

text \<open>
  A JavaScript \<^verbatim>\<open>Map\<close> iterates in the order in which its keys were first set, and
  \<^verbatim>\<open>set\<close> on a key that is present replaces the value in place: that is \<open>AList.update\<close>
  on a list of pairs. \<open>get0\<close> is \<^verbatim>\<open>(m.get(k) || 0)\<close>.
\<close>

definition get0 :: "(hash32 \<times> NumericCoeff) list \<Rightarrow> hash32 \<Rightarrow> NumericCoeff" where
  "get0 m k = (case map_of m k of None \<Rightarrow> 0 | Some v \<Rightarrow> v)"

text \<open>
  \<^verbatim>\<open>Array.prototype.sort\<close> with a comparator is a stable sort: an element goes before the
  first element that the comparator does not put strictly before it. Insertion from the
  right end of the array is such a sort.
\<close>

fun insert_by :: "('a \<Rightarrow> 'a \<Rightarrow> real) \<Rightarrow> 'a \<Rightarrow> 'a list \<Rightarrow> 'a list" where
  "insert_by cmp x [] = [x]"
| "insert_by cmp x (y # ys) = (if cmp x y \<le> 0 then x # y # ys else y # insert_by cmp x ys)"

definition sort_by :: "('a \<Rightarrow> 'a \<Rightarrow> real) \<Rightarrow> 'a list \<Rightarrow> 'a list" where
  "sort_by cmp xs = foldr (insert_by cmp) xs []"

subsection \<open>Mul.flatten and Mul.create\<close>

type_synonym PowerPair = "Expression \<times> NumericCoeff"

record MulFlattenResult =
  factors :: "Expression list"
  powers :: "PowerPair list"
  mul_coeff :: NumericCoeff

text \<open>The four variables that the closure \<^verbatim>\<open>collectFactors\<close> of \<^verbatim>\<open>Mul.flatten\<close> updates.\<close>

record MulAcc =
  acc_powers :: "(hash32 \<times> NumericCoeff) list"
  acc_factors :: "Expression list"
  acc_baseHashToExpr :: "(hash32 \<times> Expression) list"
  acc_coeff :: NumericCoeff

fun collectFactors :: "Expression \<Rightarrow> NumericCoeff \<Rightarrow> MulAcc \<Rightarrow> MulAcc" where
  "collectFactors (SymNumber v) exponent st =
     (if SymNumber_type v = ZeroT then st\<lparr>acc_coeff := 0\<rparr>
      else if SymNumber_type v = OneT then st
      else st\<lparr>acc_coeff := acc_coeff st * Math_pow v exponent\<rparr>)"
| "collectFactors (MulNode xs) exponent st = fold (\<lambda>arg. collectFactors arg exponent) xs st"
| "collectFactors (PowNode b e) exponent st =
     (case e of
        SymNumber expValue \<Rightarrow> collectFactors b (expValue * exponent) st
      | _ \<Rightarrow> st\<lparr>acc_factors := acc_factors st @ [PowNode b e]\<rparr>)"
| "collectFactors expr exponent st =
     st\<lparr>acc_baseHashToExpr := AList.update (hash expr) expr (acc_baseHashToExpr st),
        acc_powers :=
          AList.update (hash expr) (get0 (acc_powers st) (hash expr) + exponent) (acc_powers st)\<rparr>"

text \<open>The loop over \<^verbatim>\<open>seq\<close>, which stops as soon as the coefficient is 0.\<close>

fun collectFactors_seq :: "Expression list \<Rightarrow> MulAcc \<Rightarrow> MulAcc" where
  "collectFactors_seq [] st = st"
| "collectFactors_seq (expr # seq) st =
     (if acc_coeff st = 0 then st else collectFactors_seq seq (collectFactors expr 1 st))"

definition powerPairs_of :: "MulAcc \<Rightarrow> PowerPair list" where
  "powerPairs_of st =
     List.map_filter
       (\<lambda>(baseHash, expValue).
          if expValue = 0 then None
          else (case map_of (acc_baseHashToExpr st) baseHash of
                  None \<Rightarrow> None
                | Some base \<Rightarrow> Some (base, expValue)))
       (acc_powers st)"

definition Mul_flatten :: "Expression list \<Rightarrow> MulFlattenResult" where
  "Mul_flatten seq =
     (let st = collectFactors_seq seq
                 \<lparr>acc_powers = [], acc_factors = [], acc_baseHashToExpr = [], acc_coeff = 1\<rparr>
      in \<lparr>factors = sort_by compareTo (acc_factors st),
          powers = sort_by (\<lambda>a b. compareTo (fst a) (fst b)) (powerPairs_of st),
          mul_coeff = acc_coeff st\<rparr>)"

definition power_arg :: "PowerPair \<Rightarrow> Expression" where
  "power_arg pp =
     (if snd pp = 1 then fst pp else Pow_create (fst pp) (SymNumber (snd pp)))"

definition Mul_finalArgs :: "MulFlattenResult \<Rightarrow> Expression list" where
  "Mul_finalArgs flattened =
     (if mul_coeff flattened \<noteq> 1 then [SymNumber (mul_coeff flattened)] else []) @
     map power_arg (powers flattened) @ factors flattened"

definition Mul_create :: "Expression list \<Rightarrow> Expression" where
  "Mul_create as =
     (case as of
        [] \<Rightarrow> ONE
      | [a] \<Rightarrow> a
      | _ \<Rightarrow>
          (let flattened = Mul_flatten as in
           if mul_coeff flattened = 0 then ZERO
           else if factors flattened = [] \<and> powers flattened = []
           then SymNumber (mul_coeff flattened)
           else
             (case Mul_finalArgs flattened of
                [] \<Rightarrow> ONE
              | [a] \<Rightarrow> a
              | finalArgs \<Rightarrow> MulNode finalArgs)))"

subsection \<open>Add.flatten and Add.create\<close>

record FlattenResult =
  terms :: "Expression list"
  coeff :: NumericCoeff

fun extractCoeffTerm :: "Expression \<Rightarrow> NumericCoeff \<times> Expression" where
  "extractCoeffTerm (SymNumber v) = (v, ONE)"
| "extractCoeffTerm (MulNode (SymNumber c # remainingArgs)) =
     (c, case remainingArgs of [t] \<Rightarrow> t | _ \<Rightarrow> MulNode remainingArgs)"
| "extractCoeffTerm expr = (1, expr)"

text \<open>
  The closure \<^verbatim>\<open>collectTerms\<close> updates the map \<^verbatim>\<open>terms\<close> and the number \<^verbatim>\<open>coeff\<close>: the
  state is the pair of the two.
\<close>

fun collectTerms ::
  "Expression \<Rightarrow> NumericCoeff \<Rightarrow> (hash32 \<times> NumericCoeff) list \<times> NumericCoeff \<Rightarrow>
   (hash32 \<times> NumericCoeff) list \<times> NumericCoeff" where
  "collectTerms (SymNumber v) coefficient (tm, co) =
     (if SymNumber_type v = ZeroT then (tm, co) else (tm, co + v * coefficient))"
| "collectTerms (AddNode xs) coefficient st = fold (\<lambda>arg. collectTerms arg coefficient) xs st"
| "collectTerms (MulNode xs) coefficient (tm, co) =
     (case extractCoeffTerm (MulNode xs) of
        (mulCoeff, term) \<Rightarrow>
          (AList.update (hash term) (get0 tm (hash term) + mulCoeff * coefficient) tm, co))"
| "collectTerms expr coefficient (tm, co) =
     (AList.update (hash expr) (get0 tm (hash expr) + coefficient) tm, co)"

text \<open>
  The search for "the original term expression" of a hash: the operands of \<^verbatim>\<open>seq\<close> in
  order; of an Add its direct operands, of a Mul the term that \<^verbatim>\<open>extractCoeffTerm\<close> splits
  off, of any other operand the operand itself.
\<close>

definition term_candidate :: "hash32 \<Rightarrow> Expression \<Rightarrow> Expression option" where
  "term_candidate termHash expr =
     (if etype expr = AddT then find (\<lambda>arg. hash arg = termHash) (args expr)
      else if etype expr = MulT
      then (if hash (snd (extractCoeffTerm expr)) = termHash
            then Some (snd (extractCoeffTerm expr)) else None)
      else if hash expr = termHash then Some expr
      else None)"

fun find_term :: "hash32 \<Rightarrow> Expression list \<Rightarrow> Expression option" where
  "find_term termHash [] = None"
| "find_term termHash (expr # seq) =
     (case term_candidate termHash expr of
        Some term \<Rightarrow> Some term
      | None \<Rightarrow> find_term termHash seq)"

definition resultTerms_of ::
  "Expression list \<Rightarrow> (hash32 \<times> NumericCoeff) list \<Rightarrow> Expression list" where
  "resultTerms_of seq tm =
     List.map_filter
       (\<lambda>(termHash, coeffValue).
          if coeffValue = 0 then None
          else (case find_term termHash seq of
                  None \<Rightarrow> None
                | Some term \<Rightarrow>
                    Some (if coeffValue = 1 then term
                          else Mul_create [SymNumber coeffValue, term])))
       tm"

definition Add_flatten :: "Expression list \<Rightarrow> FlattenResult" where
  "Add_flatten seq =
     (case fold (\<lambda>expr. collectTerms expr 1) seq ([], 0) of
        (tm, co) \<Rightarrow> \<lparr>terms = sort_by compareTo (resultTerms_of seq tm), coeff = co\<rparr>)"

definition Add_create :: "Expression list \<Rightarrow> Expression" where
  "Add_create as =
     (case as of
        [] \<Rightarrow> ZERO
      | [a] \<Rightarrow> a
      | _ \<Rightarrow>
          (let flattened = Add_flatten as in
           if terms flattened = [] then SymNumber (coeff flattened)
           else if length (terms flattened) = 1 \<and> coeff flattened = 0
           then hd (terms flattened)
           else AddNode ((if coeff flattened \<noteq> 0 then [SymNumber (coeff flattened)] else [])
                         @ terms flattened)))"

section \<open>Evaluation (backends/typescript.ts)\<close>

text \<open>
  The two \<^verbatim>\<open>throw\<close> statements of \<^verbatim>\<open>evaluateNumerical\<close> are the two errors. The
  substitutions are a finite map from names to numbers. The loops of Add and Mul carry the
  running sum and product and stop at the first operand that throws.
\<close>

datatype EvalError = UnboundSymbol string | Unevaluable Expression


section \<open>Notions used by the properties\<close>

text \<open>All nodes of a tree, the root first.\<close>

fun nodes :: "Expression \<Rightarrow> Expression list" where
  "nodes (SymNumber v) = [SymNumber v]"
| "nodes (SymSymbol n i) = [SymSymbol n i]"
| "nodes (AddNode xs) = AddNode xs # concat (map nodes xs)"
| "nodes (MulNode xs) = MulNode xs # concat (map nodes xs)"
| "nodes (PowNode b e) = PowNode b e # nodes b @ nodes e"

text \<open>The symbols of a tree with their ids.\<close>

fun syms :: "Expression \<Rightarrow> (string \<times> SymbolId) set" where
  "syms (SymSymbol n i) = {(n, i)}"
| "syms (SymNumber v) = {}"
| "syms (AddNode xs) = (\<Union>arg \<in> set xs. syms arg)"
| "syms (MulNode xs) = (\<Union>arg \<in> set xs. syms arg)"
| "syms (PowNode b e) = syms b \<union> syms e"

text \<open>
  A tree is interned in a registry when each of its symbols carries the id that the
  registry holds for its name: the symbols were made by \<^verbatim>\<open>new SymSymbol\<close> and the registry
  was not cleared since.
\<close>

definition interned :: "SymbolRegistry \<Rightarrow> Expression \<Rightarrow> bool" where
  "interned r e \<longleftrightarrow> (\<forall>(n, i) \<in> syms e. nameToId r n = Some i)"

text \<open>The invariant of the registry: different names have different ids, below the counter.\<close>

definition registry_ok :: "SymbolRegistry \<Rightarrow> bool" where
  "registry_ok r \<longleftrightarrow>
     inj_on (nameToId r) (dom (nameToId r)) \<and> (\<forall>i \<in> ran (nameToId r). i < nextId r)"







definition add_power :: "(hash32 \<times> NumericCoeff) list \<Rightarrow> Expression \<times> NumericCoeff \<Rightarrow>
    (hash32 \<times> NumericCoeff) list" where
  "add_power m p = AList.update (hash (fst p)) (get0 m (hash (fst p)) + snd p) m"























section \<open>Properties\<close>

subsection \<open>Type tags of numbers\<close>

lemma etype_SymNumber_simps:
  "etype (SymNumber v) = ZeroT \<longleftrightarrow> v = 0"
  "etype (SymNumber v) = OneT \<longleftrightarrow> v = 1"
  "etype (SymNumber v) = NegativeOneT \<longleftrightarrow> v = - 1"
  "etype (SymNumber v) = NumberT \<longleftrightarrow> v \<noteq> 0 \<and> v \<noteq> 1 \<and> v \<noteq> - 1"
  by (auto simp: SymNumber_type_def)


subsection \<open>Pow.create\<close>

text \<open>
  Claim C6. \<^verbatim>\<open>Pow.create(base, exponent)\<close> checks, in this order: an exponent of type Zero
  gives the singleton One; an exponent of type One gives the base; a base of type Zero gives
  the singleton Zero; a base of type One gives the singleton One; a numeric base with a
  numeric exponent gives the number \<^verbatim>\<open>Math.pow(base.value, exponent.value)\<close>; anything else
  gives a Pow node whose operands are the base and the exponent. With this order
  \<^verbatim>\<open>Pow.create(Number(0), Number(0))\<close> is One.
\<close>

theorem Pow_create_table:
  "Pow_create base exponent =
     (if etype exponent = ZeroT then SymNumber 1
      else if etype exponent = OneT then base
      else if etype base = ZeroT then SymNumber 0
      else if etype base = OneT then SymNumber 1
      else if etype base \<in> {ZeroT, OneT, NegativeOneT, NumberT} \<and>
              etype exponent \<in> {ZeroT, OneT, NegativeOneT, NumberT}
      then SymNumber (Math_pow (value_of base) (value_of exponent))
      else PowNode base exponent)
   \<and> args (PowNode base exponent) = [base, exponent]
   \<and> etype (SymNumber 1) = OneT \<and> etype (SymNumber 0) = ZeroT
   \<and> Pow_create (SymNumber 0) (SymNumber 0) = SymNumber 1"
  by (auto simp: Pow_create_def ONE_def ZERO_def isNumeric_def SymNumber_type_def)

subsection \<open>The symbol registry\<close>

lemma registry_ok_init: "registry_ok SymbolRegistry_init"
  by (simp add: registry_ok_def SymbolRegistry_init_def)

lemma registry_ok_clear: "registry_ok (clear r)"
  by (simp add: registry_ok_def clear_def)

lemma registry_ok_getId: "registry_ok r \<Longrightarrow> registry_ok (snd (getId r name))"
  unfolding registry_ok_def getId_def
  apply (cases "nameToId r name")
   apply (auto simp: inj_on_def ran_def dom_def split: if_splits)
  done

lemma getId_keeps: "nameToId r n = Some i \<Longrightarrow> nameToId (snd (getId r m)) n = Some i"
  by (auto simp: getId_def split: option.splits)

lemma interned_getId: "interned r e \<Longrightarrow> interned (snd (getId r m)) e"
  unfolding interned_def using getId_keeps by fastforce

lemma new_SymSymbol_interned: "interned (snd (new_SymSymbol r name)) (fst (new_SymSymbol r name))"
  by (auto simp: new_SymSymbol_def getId_def interned_def split: option.splits prod.splits)

lemma interned_names:
  "registry_ok r \<Longrightarrow> nameToId r n = Some i \<Longrightarrow> nameToId r m = Some i \<Longrightarrow> n = m"
  unfolding registry_ok_def inj_on_def by (metis domI)

lemma deepEquals_structural:
  "registry_ok r \<Longrightarrow> interned r a \<Longrightarrow> interned r b \<Longrightarrow> deepEquals a b \<Longrightarrow> a = b"
  and deepEqualsArgs_structural:
  "registry_ok r \<Longrightarrow> \<forall>x \<in> set xs. interned r x \<Longrightarrow> \<forall>y \<in> set ys. interned r y \<Longrightarrow>
     length xs = length ys \<Longrightarrow> deepEqualsArgs xs ys \<Longrightarrow> xs = ys"
proof (induction a b and xs ys rule: deepEquals_deepEqualsArgs.induct)
  case (2 n i m j)
  then show ?case by (auto simp: interned_def dest: interned_names)
next
  case (3 xs ys)
  then show ?case by (auto simp: interned_def split: if_splits)
next
  case (4 xs ys)
  then show ?case by (auto simp: interned_def split: if_splits)
next
  case (5 b e c f)
  then show ?case by (auto simp: interned_def)
qed (auto split: if_splits)

subsection \<open>Evaluation\<close>







subsection \<open>Kinds of numbers\<close>

text \<open>
  Claim C10. The constructor of \<^verbatim>\<open>SymNumber\<close> gives the type Zero to the value 0, One to 1,
  NegativeOne to -1 and Number to every other value. Hence in every tree, and so in every
  result of a constructor or of a create routine, a node of type Number has a value other
  than 0, 1 and -1, and a node of type Zero, One or NegativeOne is the number 0, 1 or -1.
  A node of type Number and a node of type Zero, One or NegativeOne, which the canonical
  order may compare, never have the same value.
\<close>

theorem SymNumber_kinds:
  "etype (SymNumber v) =
     (if v = 0 then ZeroT else if v = 1 then OneT else if v = - 1 then NegativeOneT else NumberT)
   \<and> (\<forall>n \<in> set (nodes e). etype n = NumberT \<longrightarrow>
         value_of n \<noteq> 0 \<and> value_of n \<noteq> 1 \<and> value_of n \<noteq> - 1)
   \<and> (\<forall>n \<in> set (nodes e). etype n = ZeroT \<longrightarrow> n = SymNumber 0)
   \<and> (\<forall>n \<in> set (nodes e). etype n = OneT \<longrightarrow> n = SymNumber 1)
   \<and> (\<forall>n \<in> set (nodes e). etype n = NegativeOneT \<longrightarrow> n = SymNumber (- 1))
   \<and> (etype a = NumberT \<and> etype b \<in> {ZeroT, OneT, NegativeOneT} \<longrightarrow>
         value_of a \<noteq> value_of b)"
proof -
  have k: "etype n = NumberT \<longrightarrow> value_of n \<noteq> 0 \<and> value_of n \<noteq> 1 \<and> value_of n \<noteq> - 1" for n
    by (cases n) (auto simp: SymNumber_type_def split: if_splits)
  have z: "etype n = ZeroT \<longrightarrow> n = SymNumber 0"
    and o: "etype n = OneT \<longrightarrow> n = SymNumber 1"
    and m: "etype n = NegativeOneT \<longrightarrow> n = SymNumber (- 1)" for n
    by (cases n; auto simp: SymNumber_type_def split: if_splits)+
  have c: "etype a = NumberT \<and> etype b \<in> {ZeroT, OneT, NegativeOneT} \<longrightarrow>
         value_of a \<noteq> value_of b"
    using k [of a] z [of b] o [of b] m [of b] by auto
  show ?thesis using k z o m c by (simp add: SymNumber_type_def)
qed

text \<open>
  Witness for C10: the number 2 is a node of \<^verbatim>\<open>Mul.create(Number(2), x)\<close>, has type Number
  and a value other than 1, the value of the node One.
\<close>

theorem SymNumber_kinds_witness:
  "SymNumber 2 \<in> set (nodes (Mul_create [SymNumber 2, SymSymbol ''x'' 1]))
   \<and> etype (SymNumber 2) = NumberT \<and> value_of (SymNumber 2) \<noteq> 1
   \<and> etype (SymNumber 1) = OneT
   \<and> value_of (SymNumber 2) \<noteq> value_of (SymNumber 1)"
proof -
  have 1: "Mul_create [SymNumber 2, SymSymbol ''x'' 1] = MulNode [SymNumber 2, SymSymbol ''x'' 1]"
    by code_simp
  have m: "SymNumber 2 \<in> set (nodes (Mul_create [SymNumber 2, SymSymbol ''x'' 1]))"
    by (subst 1) simp
  have t: "etype (SymNumber 2) = NumberT" "etype (SymNumber 1) = OneT"
    by (simp_all add: SymNumber_type_def)
  have "value_of (SymNumber 2) \<noteq> 1 \<and> value_of (SymNumber 2) \<noteq> value_of (SymNumber 1)"
    using SymNumber_kinds
      [of 2 "Mul_create [SymNumber 2, SymSymbol ''x'' 1]" "SymNumber 2" "SymNumber 1"] m t
    by blast
  with m t show ?thesis by blast
qed

subsection \<open>equals and the hash\<close>

lemma hash_collision:
  "hash (SymSymbol ''bmsijs'' i) = hash (SymSymbol ''cimlmj'' j)"
  by (simp add: fastHash_def fnv_round_def)

text \<open>
  Counterexample to C9 as stated. A symbol made before \<^verbatim>\<open>SymbolRegistry.clear()\<close> and a
  symbol made after it can carry the same id under different names. The names bmsijs and
  cimlmj also have the same hash, so \<^verbatim>\<open>equals\<close> holds of two symbols that differ in their
  names.
\<close>

theorem equals_stale_symbol_counterexample:
  "fst (new_SymSymbol SymbolRegistry_init ''bmsijs'') = SymSymbol ''bmsijs'' 1
   \<and> fst (new_SymSymbol (clear (snd (new_SymSymbol SymbolRegistry_init ''bmsijs''))) ''cimlmj'')
       = SymSymbol ''cimlmj'' 1
   \<and> equals (SymSymbol ''bmsijs'' 1) (SymSymbol ''cimlmj'' 1)
   \<and> SymSymbol ''bmsijs'' 1 \<noteq> SymSymbol ''cimlmj'' 1"
  by (simp add: new_SymSymbol_def getId_def clear_def SymbolRegistry_init_def equals_def
      hash_collision del: hash.simps)

text \<open>
  Claim C9, amended. For all expressions a and b, \<^verbatim>\<open>a.equals(b)\<close> implies that the hashes
  are equal. For all a and b whose symbols are interned in one registry (made by
  \<^verbatim>\<open>new SymSymbol\<close> with no \<^verbatim>\<open>clear()\<close> in between), \<^verbatim>\<open>a.equals(b)\<close> implies that a and b are
  the same tree: equals never holds of structurally different trees, also when their hashes
  collide, as they do for the symbols bmsijs and cimlmj, which are not equal.
\<close>

theorem equals_hash_structure:
  "(equals a b \<longrightarrow> hash a = hash b)
   \<and> (registry_ok r \<and> interned r a \<and> interned r b \<and> equals a b \<longrightarrow> a = b)
   \<and> hash (SymSymbol ''bmsijs'' 1) = hash (SymSymbol ''cimlmj'' 2)
   \<and> \<not> equals (SymSymbol ''bmsijs'' 1) (SymSymbol ''cimlmj'' 2)"
proof -
  have 1: "equals a b \<longrightarrow> hash a = hash b"
    by (simp add: equals_def)
  have 2: "registry_ok r \<and> interned r a \<and> interned r b \<and> equals a b \<longrightarrow> a = b"
    using deepEquals_structural [of r a b] by (auto simp: equals_def)
  have 3: "\<not> equals (SymSymbol ''bmsijs'' 1) (SymSymbol ''cimlmj'' 2)"
    by (simp add: equals_def)
  from 1 2 3 hash_collision show ?thesis by blast
qed

text \<open>
  Witness for C9: x + y and y + x, built from the symbols of one registry, are equal by
  \<^verbatim>\<open>equals\<close>; they have the same hash and are the same tree.
\<close>

theorem equals_hash_structure_witness:
  "registry_ok (snd (getId (snd (getId SymbolRegistry_init ''x'')) ''y''))
   \<and> interned (snd (getId (snd (getId SymbolRegistry_init ''x'')) ''y''))
        (Add_create [SymSymbol ''x'' 1, SymSymbol ''y'' 2])
   \<and> interned (snd (getId (snd (getId SymbolRegistry_init ''x'')) ''y''))
        (Add_create [SymSymbol ''y'' 2, SymSymbol ''x'' 1])
   \<and> equals (Add_create [SymSymbol ''x'' 1, SymSymbol ''y'' 2])
        (Add_create [SymSymbol ''y'' 2, SymSymbol ''x'' 1])
   \<and> hash (Add_create [SymSymbol ''x'' 1, SymSymbol ''y'' 2])
       = hash (Add_create [SymSymbol ''y'' 2, SymSymbol ''x'' 1])
   \<and> Add_create [SymSymbol ''x'' 1, SymSymbol ''y'' 2]
       = Add_create [SymSymbol ''y'' 2, SymSymbol ''x'' 1]"
proof -
  let ?r = "snd (getId (snd (getId SymbolRegistry_init ''x'')) ''y'')"
  let ?a = "Add_create [SymSymbol ''x'' 1, SymSymbol ''y'' 2]"
  let ?b = "Add_create [SymSymbol ''y'' 2, SymSymbol ''x'' 1]"
  have ok: "registry_ok ?r"
    by (intro registry_ok_getId registry_ok_init)
  have a: "?a = AddNode [SymSymbol ''x'' 1, SymSymbol ''y'' 2]"
    by code_simp
  have b: "?b = AddNode [SymSymbol ''x'' 1, SymSymbol ''y'' 2]"
    by code_simp
  have ia: "interned ?r ?a"
    unfolding a by (simp add: interned_def getId_def SymbolRegistry_init_def)
  have ib: "interned ?r ?b"
    unfolding b by (simp add: interned_def getId_def SymbolRegistry_init_def)
  have eq: "equals ?a ?b"
    unfolding a b by (simp add: equals_def del: hash.simps)
  from equals_hash_structure [of ?a ?b ?r] ok ia ib eq
  have "hash ?a = hash ?b \<and> ?a = ?b" by blast
  with ok ia ib eq show ?thesis by blast
qed

subsection \<open>Nested sums\<close>

text \<open>
  Claim C1 at the operands a = \<^verbatim>\<open>Mul.create(Number(2), x)\<close>, b = y, c = z. The inner call
  \<^verbatim>\<open>Add.create(a, b)\<close> is the Add node y + 2*x. In the outer call \<^verbatim>\<open>collectTerms\<close> enters the
  nested Add and records the term x with coefficient 2, but the search for the term of that
  hash compares the hashes of the direct operands y and 2*x of the nested Add: x is not
  found and is dropped. The result is y + z, while \<^verbatim>\<open>Add.create(a, b, c)\<close> is y + z + 2*x,
  and \<^verbatim>\<open>equals\<close> of the two is false.
\<close>

theorem Add_create_nested_drops_term:
  "Mul_create [SymNumber 2, SymSymbol ''x'' 1] = MulNode [SymNumber 2, SymSymbol ''x'' 1]
   \<and> Add_create [MulNode [SymNumber 2, SymSymbol ''x'' 1], SymSymbol ''y'' 2]
       = AddNode [SymSymbol ''y'' 2, MulNode [SymNumber 2, SymSymbol ''x'' 1]]
   \<and> Add_create [AddNode [SymSymbol ''y'' 2, MulNode [SymNumber 2, SymSymbol ''x'' 1]],
                  SymSymbol ''z'' 3]
       = AddNode [SymSymbol ''y'' 2, SymSymbol ''z'' 3]
   \<and> Add_create [MulNode [SymNumber 2, SymSymbol ''x'' 1], SymSymbol ''y'' 2, SymSymbol ''z'' 3]
       = AddNode [SymSymbol ''y'' 2, SymSymbol ''z'' 3, MulNode [SymNumber 2, SymSymbol ''x'' 1]]
   \<and> \<not> equals
         (Add_create [Add_create [Mul_create [SymNumber 2, SymSymbol ''x'' 1], SymSymbol ''y'' 2],
                      SymSymbol ''z'' 3])
         (Add_create [Mul_create [SymNumber 2, SymSymbol ''x'' 1], SymSymbol ''y'' 2,
                      SymSymbol ''z'' 3])"
proof -
  have 1: "Mul_create [SymNumber 2, SymSymbol ''x'' 1] = MulNode [SymNumber 2, SymSymbol ''x'' 1]"
    by code_simp
  have 2: "Add_create [MulNode [SymNumber 2, SymSymbol ''x'' 1], SymSymbol ''y'' 2]
       = AddNode [SymSymbol ''y'' 2, MulNode [SymNumber 2, SymSymbol ''x'' 1]]"
    by code_simp
  have 3: "Add_create [AddNode [SymSymbol ''y'' 2, MulNode [SymNumber 2, SymSymbol ''x'' 1]],
                  SymSymbol ''z'' 3]
       = AddNode [SymSymbol ''y'' 2, SymSymbol ''z'' 3]"
    by code_simp
  have 4: "Add_create [MulNode [SymNumber 2, SymSymbol ''x'' 1], SymSymbol ''y'' 2, SymSymbol ''z'' 3]
       = AddNode [SymSymbol ''y'' 2, SymSymbol ''z'' 3, MulNode [SymNumber 2, SymSymbol ''x'' 1]]"
    by code_simp
  have 5: "\<not> equals (AddNode [SymSymbol ''y'' 2, SymSymbol ''z'' 3])
      (AddNode [SymSymbol ''y'' 2, SymSymbol ''z'' 3, MulNode [SymNumber 2, SymSymbol ''x'' 1]])"
    by (simp add: equals_def del: hash.simps)
  show ?thesis
    unfolding 1 2 3 4 using 5 by simp
qed

subsection \<open>The canonical order\<close>

lemma localeCompare_antisym: "localeCompare m n = - localeCompare n m"
  by (induction n m rule: localeCompare.induct) auto







lemma compareArgs_antisym_aux:
  "(\<And>x y. x \<in> set xs \<Longrightarrow> compareTo y x = - compareTo x y) \<Longrightarrow>
   compareArgs ys xs = - compareArgs xs ys"
proof (induction xs arbitrary: ys)
  case Nil
  then show ?case by (cases ys) auto
next
  case (Cons x xs)
  show ?case
  proof (cases ys)
    case Nil
    then show ?thesis by simp
  next
    case (Cons y ys')
    have 1: "compareTo y x = - compareTo x y" using Cons.prems by simp
    have 2: "compareArgs ys' xs = - compareArgs xs ys'" using Cons.IH Cons.prems by simp
    show ?thesis unfolding Cons using 1 2 by simp
  qed
qed

lemma compareTo_antisym: "compareTo b a = - compareTo a b"
proof (induction a arbitrary: b)
  case (SymNumber v)
  then show ?case by (cases b) auto
next
  case (SymSymbol n i)
  show ?case
  proof (cases b)
    case (SymSymbol m j)
    then show ?thesis using localeCompare_antisym [of m n] by simp
  qed auto
next
  case (AddNode xs)
  show ?case
  proof (cases b)
    case (AddNode ys)
    have "compareArgs ys xs = - compareArgs xs ys"
      by (rule compareArgs_antisym_aux) (rule AddNode.IH)
    then show ?thesis unfolding AddNode by simp
  qed auto
next
  case (MulNode xs)
  show ?case
  proof (cases b)
    case (MulNode ys)
    have "compareArgs ys xs = - compareArgs xs ys"
      by (rule compareArgs_antisym_aux) (rule MulNode.IH)
    then show ?thesis unfolding MulNode by simp
  qed auto
next
  case (PowNode a1 a2)
  show ?case
  proof (cases b)
    case (PowNode b1 b2)
    show ?thesis unfolding PowNode
      using PowNode.IH(1) [of b1] PowNode.IH(2) [of b2] by simp
  qed auto
qed

lemma compareArgs_antisym: "compareArgs ys xs = - compareArgs xs ys"
  by (rule compareArgs_antisym_aux) (rule compareTo_antisym)










lemma compareTo_refl: "compareTo a a = 0"
  using compareTo_antisym [of a a] by simp

lemma mset_insert_by: "mset (insert_by cmp x xs) = add_mset x (mset xs)"
  by (induction xs) auto

lemma mset_sort_by: "mset (sort_by cmp xs) = mset xs"
  by (induction xs) (auto simp: sort_by_def mset_insert_by)


lemma length_sort_by: "length (sort_by cmp xs) = length xs"
  using mset_sort_by [of cmp xs] by (metis size_mset)














lemma collectFactors_seq_zero: "acc_coeff st = 0 \<Longrightarrow> acc_coeff (collectFactors_seq seq st) = 0"
  by (cases seq) auto











subsection \<open>Association lists\<close>



lemma keys_add_power: "fst ` set (add_power m p) = insert (hash (fst p)) (fst ` set m)"
proof -
  have "set (map fst (add_power m p)) = insert (hash (fst p)) (set (map fst m))"
    unfolding add_power_def update_keys by auto
  then show ?thesis by simp
qed

lemma keys_foldl_add_power:
  "fst ` set (foldl add_power m bs) = fst ` set m \<union> (hash \<circ> fst) ` set bs"
  by (induction bs arbitrary: m) (auto simp: keys_add_power)

































































subsection \<open>Like terms and absorption\<close>









subsection \<open>The result cases of Add.create\<close>

text \<open>
  Claim C4 at the operands 2*x + 2*y (the Add node that \<^verbatim>\<open>Add.create(2*x, 2*y)\<close> returns) and
  Number(5). Flattening records the terms x and y with coefficient 2 each and the constant
  5; both terms survive cancellation. The search for their representatives compares the
  hashes of the operands 2*x and 2*y of the nested Add and the hash of the number, finds
  neither x nor y, and both terms are dropped. \<^verbatim>\<open>Add.create\<close> returns Number(5), where the
  claim gives an Add with the operands 5, 2*x and 2*y.
\<close>

theorem Add_create_loses_surviving_terms:
  "Add_create [Mul_create [SymNumber 2, SymSymbol ''x'' 1], Mul_create [SymNumber 2, SymSymbol ''y'' 2]]
     = AddNode [MulNode [SymNumber 2, SymSymbol ''x'' 1], MulNode [SymNumber 2, SymSymbol ''y'' 2]]
   \<and> fold (\<lambda>expr. collectTerms expr 1)
         [AddNode [MulNode [SymNumber 2, SymSymbol ''x'' 1], MulNode [SymNumber 2, SymSymbol ''y'' 2]],
          SymNumber 5] ([], 0)
       = ([(hash (SymSymbol ''x'' 1), 2), (hash (SymSymbol ''y'' 2), 2)], 5)
   \<and> find_term (hash (SymSymbol ''x'' 1))
         [AddNode [MulNode [SymNumber 2, SymSymbol ''x'' 1], MulNode [SymNumber 2, SymSymbol ''y'' 2]],
          SymNumber 5] = None
   \<and> find_term (hash (SymSymbol ''y'' 2))
         [AddNode [MulNode [SymNumber 2, SymSymbol ''x'' 1], MulNode [SymNumber 2, SymSymbol ''y'' 2]],
          SymNumber 5] = None
   \<and> Add_create
         [Add_create [Mul_create [SymNumber 2, SymSymbol ''x'' 1],
                      Mul_create [SymNumber 2, SymSymbol ''y'' 2]],
          SymNumber 5]
       = SymNumber 5"
proof -
  have 1: "Add_create [Mul_create [SymNumber 2, SymSymbol ''x'' 1], Mul_create [SymNumber 2, SymSymbol ''y'' 2]]
     = AddNode [MulNode [SymNumber 2, SymSymbol ''x'' 1], MulNode [SymNumber 2, SymSymbol ''y'' 2]]"
    by code_simp
  have 2: "fold (\<lambda>expr. collectTerms expr 1)
         [AddNode [MulNode [SymNumber 2, SymSymbol ''x'' 1], MulNode [SymNumber 2, SymSymbol ''y'' 2]],
          SymNumber 5] ([], 0)
       = ([(hash (SymSymbol ''x'' 1), 2), (hash (SymSymbol ''y'' 2), 2)], 5)"
    by code_simp
  have 3: "find_term (hash (SymSymbol ''x'' 1))
         [AddNode [MulNode [SymNumber 2, SymSymbol ''x'' 1], MulNode [SymNumber 2, SymSymbol ''y'' 2]],
          SymNumber 5] = None"
    by code_simp
  have 4: "find_term (hash (SymSymbol ''y'' 2))
         [AddNode [MulNode [SymNumber 2, SymSymbol ''x'' 1], MulNode [SymNumber 2, SymSymbol ''y'' 2]],
          SymNumber 5] = None"
    by code_simp
  have 5: "Add_create
         [AddNode [MulNode [SymNumber 2, SymSymbol ''x'' 1], MulNode [SymNumber 2, SymSymbol ''y'' 2]],
          SymNumber 5]
       = SymNumber 5"
    by code_simp
  show ?thesis unfolding 1 using 2 3 4 5 by simp
qed

subsection \<open>Expressions of equal rank in the canonical order\<close>







subsection \<open>Interned results\<close>










subsection \<open>The maps do not depend on the order of the contributions\<close>





































subsection \<open>Commutativity of the two-operand constructors (C3)\<close>




subsection \<open>Sums whose operands are rebuilt as they are\<close>



lemma etype_MulT: "etype x = MulT \<Longrightarrow> \<exists>xs. x = MulNode xs"
  by (cases x) (auto simp: SymNumber_type_def split: if_splits)













subsection \<open>Idempotence of the constructors (C2)\<close>




end
